theory Spec2Isabelle
  imports Complex_Main "HOL-Library.AList"
begin

section \<open>Python values and the library operations app.py relies on\<close>

text \<open>
  A Python float is modelled by the real number it stands for, where the source compares,
  subtracts, clamps or indexes: in the detector. Float operations whose rounding decides a
  result, and operations on an infinite float or a NaN, are parameters of the model (see
  the environment below). Every exception the source can raise is a value of
  \<open>py_error\<close>; a function that can raise returns \<open>py_error + 'a\<close>.
\<close>

datatype py_error =
  ValueError | IndexError | TypeError | OverflowError | FileNotFoundError | DecodeError
  | OSError | CvError | TooManyMissingFrames

text \<open>
  \<open>np.argmin\<close>: the first index of a least element; ValueError on an empty array.
\<close>

fun first_min :: "nat \<Rightarrow> real \<Rightarrow> nat \<Rightarrow> real list \<Rightarrow> nat" where
  "first_min best v i [] = best"
| "first_min best v i (x # xs) =
     (if x < v then first_min i x (Suc i) xs else first_min best v (Suc i) xs)"

definition np_argmin :: "real list \<Rightarrow> py_error + nat" where
  "np_argmin xs = (case xs of [] \<Rightarrow> Inl ValueError | x # r \<Rightarrow> Inr (first_min 0 x 1 r))"

text \<open>
  Indexing a one-dimensional array: a negative index counts from the end, an index out of
  range raises IndexError.
\<close>

definition np_index :: "'a list \<Rightarrow> int \<Rightarrow> py_error + 'a" where
  "np_index xs i =
     (if 0 \<le> i \<and> i < int (length xs) then Inr (xs ! nat i)
      else if i < 0 \<and> - int (length xs) \<le> i then Inr (xs ! nat (i + int (length xs)))
      else Inl IndexError)"

text \<open>\<open>[x for x in xs if x is not None]\<close>\<close>

definition present :: "'a option list \<Rightarrow> 'a list" where
  "present xs = map the (filter (\<lambda>x. x \<noteq> None) xs)"

subsection \<open>Strings and paths\<close>

definition endswith :: "string \<Rightarrow> string \<Rightarrow> bool" where
  "endswith s suffix \<longleftrightarrow>
     length suffix \<le> length s \<and> drop (length s - length suffix) s = suffix"

definition ascii_lower :: "char \<Rightarrow> char" where
  "ascii_lower c =
     (let n = (of_char c :: nat) in if 65 \<le> n \<and> n \<le> 90 then char_of (n + 32) else c)"

text \<open>\<open>s.rsplit('.', 1)[1]\<close> for a string that contains a dot: what follows the last dot.\<close>

definition after_last_dot :: "string \<Rightarrow> string" where
  "after_last_dot s = rev (takeWhile (\<lambda>c. c \<noteq> CHR ''.'') (rev s))"

text \<open>\<open>os.path.join\<close> of two components and the root part of \<open>os.path.splitext\<close> (POSIX).\<close>

definition path_join :: "string \<Rightarrow> string \<Rightarrow> string" where
  "path_join a b =
     (if b \<noteq> [] \<and> hd b = CHR ''/'' then b
      else if a = [] \<or> last a = CHR ''/'' then a @ b
      else a @ ''/'' @ b)"

definition splitext_root :: "string \<Rightarrow> string" where
  "splitext_root p =
     (let rp = rev p;
          ext = takeWhile (\<lambda>c. c \<noteq> CHR ''.'') rp;
          stem = drop (Suc (length ext)) rp;
          name = takeWhile (\<lambda>c. c \<noteq> CHR ''/'') stem
      in if CHR ''.'' \<in> set rp \<and> CHR ''/'' \<notin> set ext \<and> (\<exists>c \<in> set name. c \<noteq> CHR ''.'')
         then rev stem else p)"

section \<open>app.py\<close>

subsection \<open>allowed\_file\<close>

definition ALLOWED_EXTENSIONS :: "string list" where
  "ALLOWED_EXTENSIONS = [''wav'', ''mp3'', ''flac'', ''aac'']"

definition allowed_file :: "string \<Rightarrow> bool" where
  "allowed_file filename \<longleftrightarrow>
     CHR ''.'' \<in> set filename \<and>
     map ascii_lower (after_last_dot filename) \<in> set ALLOWED_EXTENSIONS"

subsection \<open>detect\_switch\_noise\<close>

text \<open>
  The OpenCV steps of the detector (normalize, GaussianBlur, threshold with Otsu's method,
  morphologyEx and findContours on the region of interest, with contourArea and
  boundingRect of each contour found) are library code. They are a parameter of the model:
  a function from the region of interest to either the exception raised or the contours in
  the order the library returns them, each with its area and bounding rectangle.
\<close>

record contour =
  area :: real
  rect_x :: int
  rect_y :: int
  rect_w :: int
  rect_h :: int

type_synonym cv_steps = "real list list \<Rightarrow> py_error + contour list"

type_synonym interval = "real option \<times> real option"

text \<open>\<open>mel_spec_db[:, start_idx:end_idx]\<close>, the spectrogram being a list of rows.\<close>

definition roi_columns :: "real list list \<Rightarrow> nat \<Rightarrow> nat \<Rightarrow> real list list" where
  "roi_columns mel_spec_db start_idx end_idx =
     map (\<lambda>row. take (end_idx - start_idx) (drop start_idx row)) mel_spec_db"

text \<open>\<open>max(contours, key=cv2.contourArea)\<close>: the first contour of greatest area.\<close>

fun max_by_area :: "contour \<Rightarrow> contour list \<Rightarrow> contour" where
  "max_by_area best [] = best"
| "max_by_area best (c # cs) =
     (if area best < area c then max_by_area c cs else max_by_area best cs)"

text \<open>The body of the \<open>try\<close> block: \<open>Inl\<close> is an exception raised inside it.\<close>

definition detect_try ::
  "cv_steps \<Rightarrow> real list list \<Rightarrow> real list \<Rightarrow> real \<Rightarrow> real \<Rightarrow> py_error + interval" where
  "detect_try cv mel_spec_db time_frames start_time end_time =
     (case np_argmin (map (\<lambda>t. \<bar>t - start_time\<bar>) time_frames) of
        Inl e \<Rightarrow> Inl e
      | Inr start_idx \<Rightarrow>
     (case np_argmin (map (\<lambda>t. \<bar>t - end_time\<bar>) time_frames) of
        Inl e \<Rightarrow> Inl e
      | Inr end_idx \<Rightarrow>
     if start_idx \<ge> end_idx then Inr (None, None)
     else
     (case cv (roi_columns mel_spec_db start_idx end_idx) of
        Inl e \<Rightarrow> Inl e
      | Inr [] \<Rightarrow> Inr (Some start_time, Some end_time)
      | Inr (c # cs) \<Rightarrow>
          (let largest_contour = max_by_area c cs;
               x = rect_x largest_contour;
               w = rect_w largest_contour
           in case np_index time_frames (int start_idx + x) of
                Inl e \<Rightarrow> Inl e
              | Inr t0 \<Rightarrow>
             (case np_index time_frames (int start_idx + x + w) of
                Inl e \<Rightarrow> Inl e
              | Inr t1 \<Rightarrow>
                  (let detected_start = max 4.5 (min t0 6.0);
                       detected_end = max (detected_start + 0.5) (min t1 7.5)
                   in Inr (Some detected_start, Some detected_end)))))))"

text \<open>\<open>except Exception\<close>: whatever was raised, the coarse window is returned.\<close>

definition detect_switch_noise ::
  "cv_steps \<Rightarrow> real list list \<Rightarrow> real list \<Rightarrow> real \<Rightarrow> real \<Rightarrow> interval" where
  "detect_switch_noise cv mel_spec_db time_frames start_time end_time =
     (case detect_try cv mel_spec_db time_frames start_time end_time of
        Inl e \<Rightarrow> (Some start_time, Some end_time)
      | Inr r \<Rightarrow> r)"

subsection \<open>The environment\<close>

text \<open>
  What app.py takes from outside is a parameter of the model:
  \<^item> werkzeug's \<open>secure_filename\<close>;
  \<^item> \<open>generate_mel_spectrogram\<close>, whose body is librosa and matplotlib calls inside a
    \<open>try\<close> that turns every exception into \<open>None\<close>, as a function of the content of
    the file it loads;
  \<^item> the OpenCV steps of the detector;
  \<^item> the float arithmetic whose rounding decides a result: \<open>ms_of_seconds t\<close> is
    \<open>int(t * 1000)\<close>, the float product truncated towards zero, which raises
    OverflowError when the product is infinite and ValueError when it is a NaN;
    \<open>np_mean\<close> is \<open>np.mean\<close> of a non-empty list; \<open>round2 x\<close> is \<open>round(x, 2)\<close>.
    \<open>'t\<close> is the type of the floats the splitter receives as bounds;
  \<^item> pydub's decoders, as functions of the content of the file at the path given;
  \<^item> whether the file system lets a directory be made or a file be exported.

  \<open>'c\<close> is the type of file contents.

  A pydub \<open>AudioSegment\<close> is measured and sliced in milliseconds. It is modelled as the
  list of its millisecond units: \<open>len(audio)\<close> is the length of the list, and \<open>+\<close> is
  concatenation. In \<open>audio[:k]\<close> and \<open>audio[k:]\<close> a position beyond the end is clamped
  to the end, and a negative position no further before zero than the length counts from
  the end. What pydub does with a position further before zero than that is left to the
  parameter \<open>slice_before_start\<close>. pydub itself stores frames: it turns a position in
  milliseconds into a frame count by truncation, and a frame count into a length in
  milliseconds by rounding. The list model is exact for audio that has a whole number of
  frames in each millisecond (at 8, 16 or 48 kHz, say) and lasts a whole number of
  milliseconds. For other audio the lengths in milliseconds that pydub reports for the
  slices and concatenations made here can differ from the model's by a millisecond or
  two.
\<close>

record spectrogram =
  sp_mel_spec_db :: "real list list"
  sp_time_frames :: "real list"
  sp_sr :: nat

record ('c, 'a, 't) env =
  secure_filename :: "string \<Rightarrow> string"
  generate_mel_spectrogram :: "'c \<Rightarrow> spectrogram option"
  cv_steps_of :: cv_steps
  ms_of_seconds :: "'t \<Rightarrow> py_error + int"
  np_mean :: "real list \<Rightarrow> real"
  round2 :: "real \<Rightarrow> real"
  from_mp3 :: "'c \<Rightarrow> py_error + 'a list"
  from_wav :: "'c \<Rightarrow> py_error + 'a list"
  slice_before_start :: "'a list \<Rightarrow> int option \<Rightarrow> int option \<Rightarrow> py_error + 'a list"
  makedirs_error :: "string \<Rightarrow> py_error option"
  export_error :: "string \<Rightarrow> py_error option"

text \<open>\<open>round(v, 2)\<close> on a value that may be \<open>None\<close>: \<open>round(None, 2)\<close> raises TypeError.\<close>

definition round2_opt :: "('c, 'a, 't) env \<Rightarrow> real option \<Rightarrow> py_error + real" where
  "round2_opt env v = (case v of None \<Rightarrow> Inl TypeError | Some x \<Rightarrow> Inr (round2 env x))"

text \<open>
  The slices \<open>audio[:k]\<close> and \<open>audio[k:]\<close>: first for a position \<open>k\<close> not below
  \<open>- len(audio)\<close>, then for every position.
\<close>

definition upto_ms :: "'a list \<Rightarrow> int \<Rightarrow> 'a list" where
  "upto_ms audio k = take (nat (if k < 0 then int (length audio) + k else k)) audio"

definition from_ms :: "'a list \<Rightarrow> int \<Rightarrow> 'a list" where
  "from_ms audio k = drop (nat (if k < 0 then int (length audio) + k else k)) audio"

definition seg_upto :: "('c, 'a, 't) env \<Rightarrow> 'a list \<Rightarrow> int \<Rightarrow> py_error + 'a list" where
  "seg_upto env audio k =
     (if k < - int (length audio) then slice_before_start env audio None (Some k)
      else Inr (upto_ms audio k))"

definition seg_from :: "('c, 'a, 't) env \<Rightarrow> 'a list \<Rightarrow> int \<Rightarrow> py_error + 'a list" where
  "seg_from env audio k =
     (if k < - int (length audio) then slice_before_start env audio (Some k) None
      else Inr (from_ms audio k))"

subsection \<open>calculate\_weighted\_average\_interval\<close>

definition calculate_weighted_average_interval ::
  "('c, 'a, 't) env \<Rightarrow> interval list \<Rightarrow> real \<times> real" where
  "calculate_weighted_average_interval env intervals =
     (if intervals = [] then (5.5, 6.5)
      else let starts = present (map fst intervals);
               ends = present (map snd intervals)
           in if starts = [] \<or> ends = [] then (5.5, 6.5)
              else (round2 env (np_mean env starts), round2 env (np_mean env ends)))"

subsection \<open>crop\_and\_split\_audio\<close>

text \<open>
  The files written under the output folder: the directories made and, for each path
  exported to, the audio last written there.
\<close>

record 'a outputs =
  made_dirs :: "string list"
  exported :: "(string \<times> 'a list) list"

definition makedirs :: "('c, 'a, 't) env \<Rightarrow> 'a outputs \<Rightarrow> string \<Rightarrow> py_error + 'a outputs" where
  "makedirs env outs d =
     (case makedirs_error env d of
        Some e \<Rightarrow> Inl e
      | None \<Rightarrow> Inr (outs\<lparr>made_dirs := List.insert d (made_dirs outs)\<rparr>))"

definition export_wav ::
  "('c, 'a, 't) env \<Rightarrow> 'a outputs \<Rightarrow> string \<Rightarrow> 'a list \<Rightarrow> py_error + 'a outputs" where
  "export_wav env outs path audio =
     (case export_error env path of
        Some e \<Rightarrow> Inl e
      | None \<Rightarrow> Inr (outs\<lparr>exported := AList.update path audio (exported outs)\<rparr>))"

text \<open>Lines 144 to 148: the decoder is chosen by the path's suffix.\<close>

definition load_audio ::
  "('c, 'a, 't) env \<Rightarrow> (string \<times> 'c) list \<Rightarrow> string \<Rightarrow> py_error + 'a list" where
  "load_audio env disk audio_path =
     (case map_of disk audio_path of
        None \<Rightarrow> Inl FileNotFoundError
      | Some c \<Rightarrow> if endswith audio_path ''.mp3'' then from_mp3 env c else from_wav env c)"

text \<open>Lines 150 to 157: \<open>cropped_audio\<close>.\<close>

definition cropped_audio ::
  "('c, 'a, 't) env \<Rightarrow> 'a list \<Rightarrow> 't \<Rightarrow> 't \<Rightarrow> py_error + 'a list" where
  "cropped_audio env audio start_time end_time =
     (case ms_of_seconds env start_time of
        Inl e \<Rightarrow> Inl e
      | Inr start_ms \<Rightarrow>
     (case ms_of_seconds env end_time of
        Inl e \<Rightarrow> Inl e
      | Inr end_ms \<Rightarrow>
     (case seg_upto env audio start_ms of
        Inl e \<Rightarrow> Inl e
      | Inr before_switch \<Rightarrow>
     (case seg_from env audio end_ms of
        Inl e \<Rightarrow> Inl e
      | Inr after_switch \<Rightarrow> Inr (before_switch @ after_switch)))))"

text \<open>Lines 159 to 162: \<open>clockwise\<close> and \<open>anticlockwise\<close>.\<close>

definition split_halves ::
  "('c, 'a, 't) env \<Rightarrow> 'a list \<Rightarrow> py_error + ('a list \<times> 'a list)" where
  "split_halves env cropped =
     (let mid_point = int (length cropped) div 2
      in case seg_upto env cropped mid_point of
           Inl e \<Rightarrow> Inl e
         | Inr clockwise \<Rightarrow>
        (case seg_from env cropped mid_point of
           Inl e \<Rightarrow> Inl e
         | Inr anticlockwise \<Rightarrow> Inr (clockwise, anticlockwise)))"

text \<open>
  The body of the \<open>try\<close> block, threading the output state: the result is the output
  state reached and the exception raised, if any.
\<close>

definition crop_try ::
  "('c, 'a, 't) env \<Rightarrow> (string \<times> 'c) list \<Rightarrow> 'a outputs \<Rightarrow> string \<Rightarrow> 't \<Rightarrow> 't \<Rightarrow> string \<Rightarrow> string
     \<Rightarrow> 'a outputs \<times> py_error option" where
  "crop_try env disk outs audio_path start_time end_time output_dir filename =
     (case load_audio env disk audio_path of
        Inl e \<Rightarrow> (outs, Some e)
      | Inr audio \<Rightarrow>
     (case cropped_audio env audio start_time end_time of
        Inl e \<Rightarrow> (outs, Some e)
      | Inr cropped \<Rightarrow>
     (case split_halves env cropped of
        Inl e \<Rightarrow> (outs, Some e)
      | Inr (clockwise, anticlockwise) \<Rightarrow>
     (let cw_dir = path_join output_dir ''Clockwise'';
          acw_dir = path_join output_dir ''Anticlockwise''
      in case makedirs env outs cw_dir of
           Inl e \<Rightarrow> (outs, Some e)
         | Inr outs1 \<Rightarrow>
        (case makedirs env outs1 acw_dir of
           Inl e \<Rightarrow> (outs1, Some e)
         | Inr outs2 \<Rightarrow>
        (let base_name = splitext_root filename;
             cw_path = path_join cw_dir (base_name @ ''_cw.wav'');
             acw_path = path_join acw_dir (base_name @ ''_acw.wav'')
         in case export_wav env outs2 cw_path clockwise of
              Inl e \<Rightarrow> (outs2, Some e)
            | Inr outs3 \<Rightarrow>
           (case export_wav env outs3 acw_path anticlockwise of
              Inl e \<Rightarrow> (outs3, Some e)
            | Inr outs4 \<Rightarrow> (outs4, None))))))))"

definition crop_and_split_audio ::
  "('c, 'a, 't) env \<Rightarrow> (string \<times> 'c) list \<Rightarrow> 'a outputs \<Rightarrow> string \<Rightarrow> 't \<Rightarrow> 't \<Rightarrow> string \<Rightarrow> string
     \<Rightarrow> bool \<times> 'a outputs" where
  "crop_and_split_audio env disk outs audio_path start_time end_time output_dir filename =
     (case crop_try env disk outs audio_path start_time end_time output_dir filename of
        (outs', None) \<Rightarrow> (True, outs')
      | (outs', Some e) \<Rightarrow> (False, outs'))"

subsection \<open>The global state and upload\_files\<close>

text \<open>
  \<open>batch_data\<close> and \<open>spectrogram_cache\<close> are Python dictionaries: association lists in
  insertion order, a key assigned again keeping its place. The upload and spectrogram
  folders hold plain files, keyed by path; writing a file is taken to succeed.
\<close>

definition UPLOAD_FOLDER :: string where
  "UPLOAD_FOLDER = ''uploads''"

definition SPECTROGRAM_FOLDER :: string where
  "SPECTROGRAM_FOLDER = ''temp_spectrograms''"

definition OUTPUT_FOLDER :: string where
  "OUTPUT_FOLDER = ''output''"

record file_data =
  fd_filename :: string
  fd_unique_filename :: string
  fd_file_path :: string
  fd_spec_image_path :: string
  fd_detected_interval :: interval
  fd_duration :: real

record 'c app_state =
  batch_data :: "(string \<times> file_data) list"
  spectrogram_cache :: "(string \<times> spectrogram) list"
  upload_folder :: "(string \<times> 'c) list"
  spectrogram_folder :: "(string \<times> spectrogram) list"

text \<open>
  One uploaded file: its name, its content, and the reading of \<open>datetime.now()\<close>,
  formatted, taken when the loop reaches it.
\<close>

record 'c upload =
  up_filename :: string
  up_content :: 'c
  up_now :: string

record result_row =
  row_filename :: string
  row_unique_filename :: string
  row_detected_start :: real
  row_detected_end :: real
  row_duration :: real

text \<open>
  The handler's answer: a 400 with its message, the success document (files, weighted
  average, total), or an exception no handler catches.
\<close>

datatype upload_response =
  UploadError string
  | UploadSuccess "result_row list" "real \<times> real" nat
  | UploadCrash py_error

text \<open>Lines 206 to 208: every file listed in the folder is removed.\<close>

definition remove_listed :: "(string \<times> 'v) list \<Rightarrow> (string \<times> 'v) list" where
  "remove_listed folder = fold AList.delete (map fst folder) folder"

definition duration_of :: "real list \<Rightarrow> real" where
  "duration_of time_frames =
     (if length time_frames > 1
      then real (length time_frames) * (time_frames ! 1 - time_frames ! 0) else 12.0)"

text \<open>
  The body of the loop over the uploaded files (lines 214 to 255): the state it leaves,
  and either the exception raised or the row and interval appended, if the file was
  processed.
\<close>

definition upload_one ::
  "('c, 'a, 't) env \<Rightarrow> 'c upload \<Rightarrow> 'c app_state
     \<Rightarrow> 'c app_state \<times> (py_error + (result_row \<times> interval) option)" where
  "upload_one env file s =
     (if up_filename file \<noteq> [] \<and> allowed_file (up_filename file) then
        (let filename = secure_filename env (up_filename file);
             unique_filename = up_now file @ filename;
             file_path = path_join UPLOAD_FOLDER unique_filename;
             s1 = s\<lparr>upload_folder := AList.update file_path (up_content file) (upload_folder s)\<rparr>;
             spec_image_path = path_join SPECTROGRAM_FOLDER (unique_filename @ ''.png'')
         in case generate_mel_spectrogram env (up_content file) of
              None \<Rightarrow> (s1, Inr None)
            | Some sp \<Rightarrow>
               (let s2 = s1\<lparr>spectrogram_folder :=
                              AList.update spec_image_path sp (spectrogram_folder s1)\<rparr>;
                    (start_time, end_time) =
                       detect_switch_noise (cv_steps_of env) (sp_mel_spec_db sp)
                         (sp_time_frames sp) 5.0 7.0;
                    file_data = \<lparr>fd_filename = filename,
                                 fd_unique_filename = unique_filename,
                                 fd_file_path = file_path,
                                 fd_spec_image_path = spec_image_path,
                                 fd_detected_interval = (start_time, end_time),
                                 fd_duration = duration_of (sp_time_frames sp)\<rparr>;
                    s3 = s2\<lparr>batch_data := AList.update unique_filename file_data (batch_data s2),
                            spectrogram_cache :=
                              AList.update unique_filename sp (spectrogram_cache s2)\<rparr>
                in case round2_opt env start_time of
                     Inl e \<Rightarrow> (s3, Inl e)
                   | Inr detected_start \<Rightarrow>
                  (case round2_opt env end_time of
                     Inl e \<Rightarrow> (s3, Inl e)
                   | Inr detected_end \<Rightarrow>
                       (s3, Inr (Some (\<lparr>row_filename = filename,
                                         row_unique_filename = unique_filename,
                                         row_detected_start = detected_start,
                                         row_detected_end = detected_end,
                                         row_duration = round2 env (fd_duration file_data)\<rparr>,
                                       (start_time, end_time)))))))
      else (s, Inr None))"

fun upload_loop ::
  "('c, 'a, 't) env \<Rightarrow> 'c upload list \<Rightarrow> 'c app_state \<Rightarrow> result_row list \<Rightarrow> interval list
     \<Rightarrow> 'c app_state \<times> (py_error + result_row list \<times> interval list)" where
  "upload_loop env [] s results intervals = (s, Inr (results, intervals))"
| "upload_loop env (file # files) s results intervals =
     (case upload_one env file s of
        (s', Inl e) \<Rightarrow> (s', Inl e)
      | (s', Inr None) \<Rightarrow> upload_loop env files s' results intervals
      | (s', Inr (Some (row, i))) \<Rightarrow>
          upload_loop env files s' (results @ [row]) (intervals @ [i]))"

text \<open>
  \<open>upload_files\<close>: the request's \<open>files\<close> field is \<open>None\<close> when the request has none.
\<close>

definition upload_files ::
  "('c, 'a, 't) env \<Rightarrow> 'c app_state \<Rightarrow> 'c upload list option \<Rightarrow> 'c app_state \<times> upload_response" where
  "upload_files env s request_files =
     (case request_files of
        None \<Rightarrow> (s, UploadError ''No files provided'')
      | Some files \<Rightarrow>
          if files = [] \<or> list_all (\<lambda>file. up_filename file = []) files
          then (s, UploadError ''No files selected'')
          else
            (let s0 = s\<lparr>batch_data := [], spectrogram_cache := [],
                       upload_folder := remove_listed (upload_folder s),
                       spectrogram_folder := remove_listed (spectrogram_folder s)\<rparr>
             in case upload_loop env files s0 [] [] of
                  (s', Inl e) \<Rightarrow> (s', UploadCrash e)
                | (s', Inr (results, intervals)) \<Rightarrow>
                    if results = [] then (s', UploadError ''No valid audio files processed'')
                    else (s', UploadSuccess results
                                (calculate_weighted_average_interval env intervals)
                                (length results))))"

subsection \<open>process\_batch\<close>

text \<open>
  The request's JSON body is \<open>None\<close> when absent or empty, else its \<open>start_time\<close> and
  \<open>end_time\<close> fields, each \<open>None\<close> when missing. The answer carries the name of the ZIP
  file and the two counts; packing the output directory into the ZIP file and removing
  the directory afterwards are not modelled.
\<close>

datatype batch_response =
  BatchError string
  | BatchSuccess string nat nat
  | BatchCrash py_error

fun batch_loop ::
  "('c, 'a, 't) env \<Rightarrow> (string \<times> 'c) list \<Rightarrow> 'a outputs \<Rightarrow> 't \<Rightarrow> 't \<Rightarrow> string
     \<Rightarrow> (string \<times> file_data) list \<Rightarrow> string list \<Rightarrow> string list
     \<Rightarrow> 'a outputs \<times> string list \<times> string list" where
  "batch_loop env disk outs start_time end_time output_dir [] processed_files failed_files =
     (outs, processed_files, failed_files)"
| "batch_loop env disk outs start_time end_time output_dir ((unique_filename, fd) # items)
     processed_files failed_files =
     (case crop_and_split_audio env disk outs (fd_file_path fd) start_time end_time output_dir
             (fd_filename fd) of
        (True, outs') \<Rightarrow>
          batch_loop env disk outs' start_time end_time output_dir items
            (processed_files @ [fd_filename fd]) failed_files
      | (False, outs') \<Rightarrow>
          batch_loop env disk outs' start_time end_time output_dir items
            processed_files (failed_files @ [fd_filename fd]))"

definition process_batch ::
  "('c, 'a, 't) env \<Rightarrow> 'c app_state \<Rightarrow> 'a outputs \<Rightarrow> ('t option \<times> 't option) option \<Rightarrow> string
     \<Rightarrow> 'a outputs \<times> batch_response" where
  "process_batch env s outs data now =
     (case data of
        None \<Rightarrow> (outs, BatchError ''Invalid parameters'')
      | Some (None, _) \<Rightarrow> (outs, BatchError ''Invalid parameters'')
      | Some (Some start_time, None) \<Rightarrow> (outs, BatchError ''Invalid parameters'')
      | Some (Some start_time, Some end_time) \<Rightarrow>
          (let output_dir = path_join OUTPUT_FOLDER (''batch_'' @ now)
           in case makedirs env outs output_dir of
                Inl e \<Rightarrow> (outs, BatchCrash e)
              | Inr outs1 \<Rightarrow>
                  (case batch_loop env (upload_folder s) outs1 start_time end_time output_dir
                          (batch_data s) [] [] of
                     (outs2, processed_files, failed_files) \<Rightarrow>
                       (outs2, BatchSuccess (''processed_audio_'' @ now @ ''.zip'')
                                 (length processed_files) (length failed_files)))))"

subsection \<open>A sequence of upload requests\<close>

text \<open>The state after the server has handled the requests of a list, one after the other.\<close>

fun upload_sequence ::
  "('c, 'a, 't) env \<Rightarrow> 'c app_state \<Rightarrow> 'c upload list option list \<Rightarrow> 'c app_state" where
  "upload_sequence env s [] = s"
| "upload_sequence env s (request_files # later) =
     upload_sequence env (fst (upload_files env s request_files)) later"

section \<open>The spec's excise property\<close>

text \<open>
  The spec states the excise step in samples at the buffer's sample rate: the cut point
  of a time is its position in samples, and the excised span holds the samples between
  the two cut points. A span of whole milliseconds holds \<open>sample_rate / 1000\<close> samples
  for each millisecond.
\<close>

definition spec_cut_point :: "real \<Rightarrow> real \<Rightarrow> real" where
  "spec_cut_point sample_rate t = t * sample_rate"

definition samples_of_ms :: "real \<Rightarrow> int \<Rightarrow> real" where
  "samples_of_ms sample_rate ms = of_int ms * sample_rate / 1000"

text \<open>The spec's aggregation rule: an entry with a missing bound is dropped whole.\<close>

definition spec_discard_invalid :: "interval list \<Rightarrow> interval list" where
  "spec_discard_invalid intervals =
     filter (\<lambda>i. fst i \<noteq> None \<and> snd i \<noteq> None) intervals"

section \<open>Concrete inputs\<close>

text \<open>
  The floats used as bounds of the splitter below, named by the way they are written,
  with what \<open>int(t * 1000)\<close> gives on each. 4.02 * 1000 is the float just below 4020,
  so its truncation is 4019; the float written 1e999 is infinite.
\<close>

datatype bound =
  Sec_7_0 | Sec_5_0 | Sec_13_0 | Sec_5_5 | Sec_6_5 | Sec_6_0 | Sec_4_02 | Sec_5_5004
  | Sec_minus_1_0 | Sec_1e999

fun int_ms :: "bound \<Rightarrow> py_error + int" where
  "int_ms Sec_7_0 = Inr 7000"
| "int_ms Sec_5_0 = Inr 5000"
| "int_ms Sec_13_0 = Inr 13000"
| "int_ms Sec_5_5 = Inr 5500"
| "int_ms Sec_6_5 = Inr 6500"
| "int_ms Sec_6_0 = Inr 6000"
| "int_ms Sec_4_02 = Inr 4019"
| "int_ms Sec_5_5004 = Inr 5500"
| "int_ms Sec_minus_1_0 = Inr (- 1000)"
| "int_ms Sec_1e999 = Inl OverflowError"

text \<open>
  The slices of a silent clip at a position \<open>k\<close> below \<open>- len(audio)\<close>. pydub adds the
  length to the position once, and the slice of its byte string adds the length once
  more. So \<open>audio[:k]\<close> is the first \<open>2 * len(audio) + k\<close> milliseconds, none when that
  is negative. \<open>audio[k:]\<close> starts there too, and is then shorter than the \<open>- k\<close>
  milliseconds asked for: pydub fills up to two missing milliseconds with silence, and
  raises TooManyMissingFrames when more are missing.
\<close>

definition clip_slice_before_start ::
  "int list \<Rightarrow> int option \<Rightarrow> int option \<Rightarrow> py_error + int list" where
  "clip_slice_before_start audio lo hi =
     (let n = int (length audio)
      in case (lo, hi) of
           (Some k, None) \<Rightarrow>
             (let data = drop (nat (2 * n + k)) audio;
                  missing = max n (- (n + k))
              in if 2 < missing then Inl TooManyMissingFrames
                 else if data = [] then Inr []
                 else Inr (data @ replicate (nat missing) 0))
         | (_, Some k) \<Rightarrow> Inr (take (nat (2 * n + k)) audio)
         | (None, None) \<Rightarrow> Inr audio)"

text \<open>
  An environment in which the content of a file is the length in seconds of a silent
  clip: its spectrogram has one row and one frame for each second, the OpenCV steps find
  no contour in it, both decoders give the clip as that many thousand millisecond units,
  and the file system accepts every directory and file. The times that reach \<open>np.mean\<close>
  and \<open>round\<close> in it are whole or half seconds: on them the float mean is the exact
  mean, and rounding to two decimals changes nothing.
\<close>

definition clip_time_frames :: "nat \<Rightarrow> real list" where
  "clip_time_frames n = map real [0..<n]"

definition clip_env :: "(nat, int, bound) env" where
  "clip_env =
     \<lparr>secure_filename = (\<lambda>name. name),
      generate_mel_spectrogram =
        (\<lambda>n. Some \<lparr>sp_mel_spec_db = [replicate n 0], sp_time_frames = clip_time_frames n,
                    sp_sr = 22050\<rparr>),
      cv_steps_of = (\<lambda>roi. Inr []),
      ms_of_seconds = int_ms,
      np_mean = (\<lambda>xs. sum_list xs / real (length xs)),
      round2 = (\<lambda>x. x),
      from_mp3 = (\<lambda>n. Inr (replicate (n * 1000) 0)),
      from_wav = (\<lambda>n. Inr (replicate (n * 1000) 0)),
      slice_before_start = clip_slice_before_start,
      makedirs_error = (\<lambda>d. None),
      export_error = (\<lambda>path. None)\<rparr>"



text \<open>OpenCV steps that find one contour in the first column, none, or raise.\<close>

definition one_contour :: cv_steps where
  "one_contour roi = Inr [\<lparr>area = 10, rect_x = 0, rect_y = 0, rect_w = 1, rect_h = 1\<rparr>]"

definition no_contours :: cv_steps where
  "no_contours roi = Inr []"

definition cv_raises :: cv_steps where
  "cv_raises roi = Inl CvError"

text \<open>The state of a server that has handled no upload, and three uploaded clips.\<close>

definition empty_state :: "'c app_state" where
  "empty_state =
     \<lparr>batch_data = [], spectrogram_cache = [], upload_folder = [], spectrogram_folder = []\<rparr>"

definition first_clip :: "nat upload" where
  "first_clip = \<lparr>up_filename = ''a.wav'', up_content = 12, up_now = ''20240101_120000_''\<rparr>"

definition second_clip :: "nat upload" where
  "second_clip = \<lparr>up_filename = ''b.wav'', up_content = 12, up_now = ''20240102_090000_''\<rparr>"

definition short_clip :: "nat upload" where
  "short_clip = \<lparr>up_filename = ''c.wav'', up_content = 3, up_now = ''20240103_100000_''\<rparr>"

section \<open>Auxiliary facts\<close>

lemma seg_upto_in_range:
  "- int (length audio) \<le> k \<Longrightarrow> seg_upto env audio k = Inr (upto_ms audio k)"
  by (simp add: seg_upto_def)

lemma seg_from_in_range:
  "- int (length audio) \<le> k \<Longrightarrow> seg_from env audio k = Inr (from_ms audio k)"
  by (simp add: seg_from_def)

lemma seg_upto_nonneg: "0 \<le> k \<Longrightarrow> seg_upto env audio k = Inr (take (nat k) audio)"
  by (simp add: seg_upto_def upto_ms_def)

lemma seg_from_nonneg: "0 \<le> k \<Longrightarrow> seg_from env audio k = Inr (drop (nat k) audio)"
  by (simp add: seg_from_def from_ms_def)

lemma cropped_audio_in_range:
  "ms_of_seconds env start_time = Inr start_ms \<Longrightarrow> ms_of_seconds env end_time = Inr end_ms \<Longrightarrow>
   - int (length audio) \<le> start_ms \<Longrightarrow> - int (length audio) \<le> end_ms \<Longrightarrow>
   cropped_audio env audio start_time end_time =
     Inr (upto_ms audio start_ms @ from_ms audio end_ms)"
  by (simp add: cropped_audio_def seg_upto_in_range seg_from_in_range)


lemma split_halves_eq:
  "split_halves env cropped =
     Inr (take (length cropped div 2) cropped, drop (length cropped div 2) cropped)"
proof -
  have m: "nat (int (length cropped) div 2) = length cropped div 2"
    by (simp add: nat_div_distrib)
  have "0 \<le> int (length cropped) div 2" by simp
  then show ?thesis
    by (simp add: split_halves_def Let_def seg_upto_nonneg seg_from_nonneg m)
qed







lemma clip_env_ms: "ms_of_seconds clip_env = int_ms"
  by (simp add: clip_env_def)



section \<open>The Segment Splitter\<close>





text \<open>
  Claim C6, as the code has it. The excise step converts the bounds to whole
  milliseconds with \<open>int(t * 1000)\<close>, and for cut points with
  \<open>0 \<le> start_ms \<le> end_ms \<le> len(audio)\<close> the concatenation of the audio before the
  start cut with the audio after the end cut is, in the milliseconds of the buffer,
  shorter than the buffer by exactly the milliseconds between the two cut points.
\<close>

theorem cropped_audio_length_in_milliseconds:
  assumes "ms_of_seconds env a = Inr start_ms" and "ms_of_seconds env b = Inr end_ms"
    and "0 \<le> start_ms" and "start_ms \<le> end_ms" and "end_ms \<le> int (length audio)"
  shows "\<exists>cropped. cropped_audio env audio a b = Inr cropped
           \<and> cropped = take (nat start_ms) audio @ drop (nat end_ms) audio
           \<and> int (length cropped) = int (length audio) - (end_ms - start_ms)"
proof -
  have "cropped_audio env audio a b = Inr (upto_ms audio start_ms @ from_ms audio end_ms)"
    using assms by (intro cropped_audio_in_range) simp_all
  then show ?thesis
    using assms by (simp add: upto_ms_def from_ms_def)
qed

text \<open>
  The theorem on a 12 second clip: the interval (5.5, 6.5) leaves 11000 ms, and the
  interval (4.02, 6.0), whose start cut is at 4019 ms, leaves 10019 ms.
\<close>

theorem cropped_audio_length_in_milliseconds_witness:
  "ms_of_seconds clip_env Sec_5_5 = Inr 5500 \<and> ms_of_seconds clip_env Sec_6_5 = Inr 6500
   \<and> (0::int) \<le> 5500 \<and> (5500::int) \<le> 6500
   \<and> (6500::int) \<le> int (length (replicate 12000 (0::int)))
   \<and> cropped_audio clip_env (replicate 12000 0) Sec_5_5 Sec_6_5 = Inr (replicate 11000 0)
   \<and> ms_of_seconds clip_env Sec_4_02 = Inr 4019 \<and> ms_of_seconds clip_env Sec_6_0 = Inr 6000
   \<and> cropped_audio clip_env (replicate 12000 0) Sec_4_02 Sec_6_0 = Inr (replicate 10019 0)"
proof -
  have ms: "ms_of_seconds clip_env Sec_5_5 = Inr 5500" "ms_of_seconds clip_env Sec_6_5 = Inr 6500"
    "ms_of_seconds clip_env Sec_4_02 = Inr 4019" "ms_of_seconds clip_env Sec_6_0 = Inr 6000"
    by (simp_all add: clip_env_ms)
  have 1: "cropped_audio clip_env (replicate 12000 0) Sec_5_5 Sec_6_5 = Inr (replicate 11000 0)"
    using cropped_audio_length_in_milliseconds [OF ms(1,2), of "replicate 12000 0"]
    by (auto simp: replicate_add [symmetric])
  have 2: "cropped_audio clip_env (replicate 12000 0) Sec_4_02 Sec_6_0 = Inr (replicate 10019 0)"
    using cropped_audio_length_in_milliseconds [OF ms(3,4), of "replicate 12000 0"]
    by (auto simp: replicate_add [symmetric])
  show ?thesis using ms 1 2 by simp
qed

text \<open>
  Claim C6 as stated fails: the cut points are not sample-accurate. For a 12 second
  buffer and the valid interval (5.5004, 6.5) the start cut is at 5500 ms, and exactly
  1000 ms are removed. At 22050 samples a second that is 22050 samples, over 8 samples
  more than the interval holds, and the start cut lies over 8 samples before 5.5004 s.
\<close>

theorem cropped_audio_not_sample_accurate:
  "ms_of_seconds clip_env Sec_5_5004 = Inr 5500
   \<and> cropped_audio clip_env (replicate 12000 0) Sec_5_5004 Sec_6_5 = Inr (replicate 11000 0)
   \<and> 8 < samples_of_ms 22050 (12000 - 11000)
           - (spec_cut_point 22050 6.5 - spec_cut_point 22050 5.5004)
   \<and> 8 < spec_cut_point 22050 5.5004 - samples_of_ms 22050 5500"
  by (simp add: cropped_audio_def seg_upto_def seg_from_def upto_ms_def from_ms_def clip_env_ms
      samples_of_ms_def spec_cut_point_def replicate_add [symmetric])

text \<open>
  Claim C7. The remaining audio is split at \<open>mid_point = len(cropped_audio) // 2\<close> into
  the units before it and the units from it on: the halves are contiguous and do not
  overlap, the first has \<open>mid_point\<close> units, their lengths add up to the length of the
  remaining audio, and the second half has the odd unit, if there is one.
\<close>

theorem split_halves_contiguous:
  "split_halves env cropped =
     Inr (take (length cropped div 2) cropped, drop (length cropped div 2) cropped)
   \<and> take (length cropped div 2) cropped @ drop (length cropped div 2) cropped = cropped
   \<and> length (take (length cropped div 2) cropped) = length cropped div 2
   \<and> length (take (length cropped div 2) cropped)
       + length (drop (length cropped div 2) cropped) = length cropped
   \<and> length (drop (length cropped div 2) cropped) =
       length (take (length cropped div 2) cropped) + length cropped mod 2"
proof -
  have "length cropped - length cropped div 2 = length cropped div 2 + length cropped mod 2"
    by presburger
  then show ?thesis by (simp add: split_halves_eq)
qed

section \<open>The decoder\<close>











section \<open>The Consensus Aggregator\<close>


lemma aggregate_by_present:
  "calculate_weighted_average_interval env xs =
     (if present (map fst xs) = [] \<or> present (map snd xs) = [] then (5.5, 6.5)
      else (round2 env (np_mean env (present (map fst xs))),
            round2 env (np_mean env (present (map snd xs)))))"
  by (simp add: calculate_weighted_average_interval_def Let_def present_def)

lemma aggregate_depends_on_present:
  assumes "present (map fst xs) = present (map fst ys)"
    and "present (map snd xs) = present (map snd ys)"
  shows "calculate_weighted_average_interval env xs = calculate_weighted_average_interval env ys"
  by (simp only: aggregate_by_present assms)

lemma present_drop_absent:
  "present (map fst (filter (\<lambda>i. i \<noteq> (None, None)) xs)) = present (map fst xs)"
  "present (map snd (filter (\<lambda>i. i \<noteq> (None, None)) xs)) = present (map snd xs)"
  by (induction xs) (auto simp: present_def)

lemma present_discard_invalid:
  assumes "\<forall>i \<in> set xs. fst i = None \<longleftrightarrow> snd i = None"
  shows "present (map fst (spec_discard_invalid xs)) = present (map fst xs)"
    and "present (map snd (spec_discard_invalid xs)) = present (map snd xs)"
  using assms by (induction xs) (auto simp: present_def spec_discard_invalid_def)


lemma clip_env_arith:
  "np_mean clip_env xs = sum_list xs / real (length xs)"
  "round2 clip_env x = x"
  by (simp_all add: clip_env_def)

text \<open>
  Claim C2, as the code has it. A missing bound is dropped on its own. When at least one
  start and at least one end are present, the averaged start is \<open>np.mean\<close> of exactly
  the starts that are present, rounded, and the averaged end is \<open>np.mean\<close> of exactly
  the ends that are present, rounded, so an entry with one bound missing still
  contributes the other; when no start or no end is present the result is (5.5, 6.5). An
  entry with both bounds missing contributes nothing, and when every entry has both
  bounds or neither, as the detector produces them, the result is that of discarding the
  incomplete entries whole.
\<close>

theorem aggregator_drops_each_missing_bound_alone:
  "calculate_weighted_average_interval env intervals =
     (if present (map fst intervals) = [] \<or> present (map snd intervals) = [] then (5.5, 6.5)
      else (round2 env (np_mean env (present (map fst intervals))),
            round2 env (np_mean env (present (map snd intervals)))))
   \<and> calculate_weighted_average_interval env (filter (\<lambda>i. i \<noteq> (None, None)) intervals) =
       calculate_weighted_average_interval env intervals
   \<and> ((\<forall>i \<in> set intervals. fst i = None \<longleftrightarrow> snd i = None) \<longrightarrow>
        calculate_weighted_average_interval env (spec_discard_invalid intervals) =
          calculate_weighted_average_interval env intervals)"
proof (intro conjI impI)
  show "calculate_weighted_average_interval env intervals =
     (if present (map fst intervals) = [] \<or> present (map snd intervals) = [] then (5.5, 6.5)
      else (round2 env (np_mean env (present (map fst intervals))),
            round2 env (np_mean env (present (map snd intervals)))))"
    by (rule aggregate_by_present)
  show "calculate_weighted_average_interval env (filter (\<lambda>i. i \<noteq> (None, None)) intervals) =
       calculate_weighted_average_interval env intervals"
    by (rule aggregate_depends_on_present) (simp_all add: present_drop_absent)
  show "calculate_weighted_average_interval env (spec_discard_invalid intervals) =
          calculate_weighted_average_interval env intervals"
    if "\<forall>i \<in> set intervals. fst i = None \<longleftrightarrow> snd i = None"
    using that by (intro aggregate_depends_on_present present_discard_invalid)
qed

text \<open>
  The theorem at a list whose entries have both bounds or neither: the entry without
  bounds is dropped, and the result is the mean of the two starts and of the two ends.
\<close>

theorem aggregator_drops_each_missing_bound_alone_witness:
  "present (map fst [(Some (5::real), Some (6::real)), (None, None), (Some 6, Some 7)]) = [5, 6]
   \<and> present (map snd [(Some (5::real), Some (6::real)), (None, None), (Some 6, Some 7)]) = [6, 7]
   \<and> calculate_weighted_average_interval clip_env
        [(Some 5, Some 6), (None, None), (Some 6, Some 7)] = (5.5, 6.5)
   \<and> calculate_weighted_average_interval clip_env
        (spec_discard_invalid [(Some 5, Some 6), (None, None), (Some 6, Some 7)]) = (5.5, 6.5)"
proof -
  let ?xs = "[(Some (5::real), Some (6::real)), (None, None), (Some 6, Some 7)]"
  have b: "\<forall>i \<in> set ?xs. fst i = None \<longleftrightarrow> snd i = None" by simp
  have p: "present (map fst ?xs) = [5, 6]" "present (map snd ?xs) = [6, 7]"
    by (simp_all add: present_def)
  note t = aggregator_drops_each_missing_bound_alone [of clip_env ?xs]
  have "calculate_weighted_average_interval clip_env ?xs =
     (if present (map fst ?xs) = [] \<or> present (map snd ?xs) = [] then (5.5, 6.5)
      else (round2 clip_env (np_mean clip_env (present (map fst ?xs))),
            round2 clip_env (np_mean clip_env (present (map snd ?xs)))))"
    by (rule t [THEN conjunct1])
  also have "\<dots> = (5.5, 6.5)"
    unfolding p by (simp add: clip_env_arith)
  finally have 1: "calculate_weighted_average_interval clip_env ?xs = (5.5, 6.5)" .
  have "calculate_weighted_average_interval clip_env (spec_discard_invalid ?xs) =
      calculate_weighted_average_interval clip_env ?xs"
    using t [THEN conjunct2, THEN conjunct2] b by (rule mp)
  with 1 have 2: "calculate_weighted_average_interval clip_env (spec_discard_invalid ?xs) =
      (5.5, 6.5)"
    by (rule_tac trans)
  show ?thesis using p 1 2 by (intro conjI)
qed

text \<open>
  Claim C2 as stated fails: the entry (5.0, None) is not discarded whole. Its start
  enters the averaged start, 5.5, where discarding the entry gives 6.0.
\<close>

theorem aggregator_keeps_bound_of_incomplete_entry:
  "calculate_weighted_average_interval clip_env [(Some 5, None), (Some 6, Some 7)] = (5.5, 7)
   \<and> calculate_weighted_average_interval clip_env
        (spec_discard_invalid [(Some 5, None), (Some 6, Some 7)]) = (6, 7)"
  by (simp add: calculate_weighted_average_interval_def spec_discard_invalid_def present_def
      clip_env_arith Let_def)




section \<open>The Click Detector\<close>


lemma detect_degenerate:
  "np_argmin (map (\<lambda>t. \<bar>t - start_time\<bar>) time_frames) = Inr i \<Longrightarrow>
   np_argmin (map (\<lambda>t. \<bar>t - end_time\<bar>) time_frames) = Inr j \<Longrightarrow> j \<le> i \<Longrightarrow>
   detect_switch_noise cv mel_spec_db time_frames start_time end_time = (None, None)"
  by (simp add: detect_switch_noise_def detect_try_def)

lemma detect_exception:
  "detect_try cv mel_spec_db time_frames start_time end_time = Inl e \<Longrightarrow>
   detect_switch_noise cv mel_spec_db time_frames start_time end_time = (Some start_time, Some end_time)"
  by (simp add: detect_switch_noise_def)

lemma detect_cv_raises:
  "np_argmin (map (\<lambda>t. \<bar>t - start_time\<bar>) time_frames) = Inr i \<Longrightarrow>
   np_argmin (map (\<lambda>t. \<bar>t - end_time\<bar>) time_frames) = Inr j \<Longrightarrow> i < j \<Longrightarrow>
   cv (roi_columns mel_spec_db i j) = Inl e \<Longrightarrow>
   detect_try cv mel_spec_db time_frames start_time end_time = Inl e"
  by (simp add: detect_try_def)

lemma detect_try_cases:
  assumes "detect_try cv mel_spec_db time_frames start_time end_time = Inr r"
  shows "r = (None, None) \<or> r = (Some start_time, Some end_time)
     \<or> (\<exists>t0 t1. r = (Some (max 4.5 (min t0 6.0)), Some (max (max 4.5 (min t0 6.0) + 0.5) (min t1 7.5))))"
  using assms unfolding detect_try_def Let_def
  by (auto split: sum.splits list.splits if_splits)

text \<open>
  Claim C4, as the code has it. Whenever \<open>detect_switch_noise\<close> returns a numeric
  interval, either it is the coarse window, returned unchanged because no contour was
  found or an exception was raised, or it was computed from a contour: then the start lies
  in [4.5, 6.0], the end in [start + 0.5, 7.5], and the start is strictly less than the
  end. So whenever the coarse window itself has these bounds, as the default window
  (5.0, 7.0) has, every numeric result has them.
\<close>

theorem detect_switch_noise_result_bounds:
  assumes "detect_switch_noise cv mel_spec_db time_frames start_time end_time = (Some a, Some b)"
  shows "((a, b) = (start_time, end_time)
            \<or> (4.5 \<le> a \<and> a \<le> 6.0 \<and> a + 0.5 \<le> b \<and> b \<le> 7.5 \<and> a < b))
     \<and> (4.5 \<le> start_time \<and> start_time \<le> 6.0 \<and> start_time + 0.5 \<le> end_time \<and> end_time \<le> 7.5
          \<longrightarrow> 4.5 \<le> a \<and> a \<le> 6.0 \<and> a + 0.5 \<le> b \<and> b \<le> 7.5 \<and> a < b)"
proof (cases "detect_try cv mel_spec_db time_frames start_time end_time")
  case (Inl e)
  with assms show ?thesis by (auto simp: detect_switch_noise_def)
next
  case (Inr r)
  with assms have r: "r = (Some a, Some b)" by (simp add: detect_switch_noise_def)
  from detect_try_cases [OF Inr] r
  consider "(a, b) = (start_time, end_time)"
    | t0 t1 where "a = max 4.5 (min t0 6.0)" "b = max (a + 0.5) (min t1 7.5)"
    by auto
  then show ?thesis
  proof cases
    case 1
    then show ?thesis by auto
  next
    case 2
    then have "4.5 \<le> a \<and> a \<le> 6.0 \<and> a + 0.5 \<le> b \<and> b \<le> 7.5 \<and> a < b"
      by (auto simp: max_def min_def)
    then show ?thesis by simp
  qed
qed

lemma clip12_argmin:
  "np_argmin (map (\<lambda>t. \<bar>t - 5\<bar>) (clip_time_frames 12)) = Inr 5"
  "np_argmin (map (\<lambda>t. \<bar>t - 7\<bar>) (clip_time_frames 12)) = Inr 7"
  "np_argmin (map (\<lambda>t. \<bar>t - 1\<bar>) (clip_time_frames 12)) = Inr 1"
  "np_argmin (map (\<lambda>t. \<bar>t - 3\<bar>) (clip_time_frames 12)) = Inr 3"
  by (simp_all add: np_argmin_def clip_time_frames_def upt_rec)

lemma clip12_index:
  "np_index (clip_time_frames 12) 5 = Inr 5"
  "np_index (clip_time_frames 12) 6 = Inr 6"
  by (simp_all add: np_index_def clip_time_frames_def upt_rec Let_def)

lemma clip3_argmin:
  "np_argmin (map (\<lambda>t. \<bar>t - 5\<bar>) (clip_time_frames 3)) = Inr 2"
  "np_argmin (map (\<lambda>t. \<bar>t - 7\<bar>) (clip_time_frames 3)) = Inr 2"
  by (simp_all add: np_argmin_def clip_time_frames_def upt_rec)

lemma detect_one_contour:
  "detect_switch_noise one_contour [replicate 12 0] (clip_time_frames 12) 5 7 = (Some 5, Some 6)"
  by (simp add: detect_switch_noise_def detect_try_def clip12_argmin one_contour_def clip12_index
      Let_def)

text \<open>
  The theorem at a spectrogram of 12 frames one second apart, the default window and one
  contour in the first column of the region of interest: the result is (5.0, 6.0).
\<close>

theorem detect_switch_noise_result_bounds_witness:
  "detect_switch_noise one_contour [replicate 12 0] (clip_time_frames 12) 5 7 = (Some 5, Some 6)
   \<and> (4.5::real) \<le> 5 \<and> (5::real) \<le> 6.0 \<and> (5::real) + 0.5 \<le> 7 \<and> (7::real) \<le> 7.5
   \<and> (4.5::real) \<le> 5 \<and> (5::real) + 0.5 \<le> 6 \<and> (6::real) \<le> 7.5 \<and> (5::real) < 6"
  using detect_switch_noise_result_bounds [OF detect_one_contour] detect_one_contour by simp

text \<open>
  Claim C4 as stated fails for a coarse window outside the range: with the window
  (1.0, 3.0) and no contour found, the detector returns (1.0, 3.0), and the start is
  less than 4.5.
\<close>

theorem detect_switch_noise_returns_window_unclamped:
  "detect_switch_noise no_contours [replicate 12 0] (clip_time_frames 12) 1 3 = (Some 1, Some 3)
   \<and> \<not> (4.5 \<le> (1::real))"
  by (simp add: detect_switch_noise_def detect_try_def clip12_argmin no_contours_def)

text \<open>
  Claim C8. Whatever exception is raised inside the \<open>try\<close> block of
  \<open>detect_switch_noise\<close>, and in particular when the OpenCV steps raise on the region
  of interest, the function returns the coarse window unchanged. It returns a value in
  every case: no exception leaves it.
\<close>

theorem detect_switch_noise_catches_exceptions:
  "(\<forall>e. detect_try cv mel_spec_db time_frames start_time end_time = Inl e \<longrightarrow>
        detect_switch_noise cv mel_spec_db time_frames start_time end_time =
          (Some start_time, Some end_time))
   \<and> (\<forall>i j e. np_argmin (map (\<lambda>t. \<bar>t - start_time\<bar>) time_frames) = Inr i
          \<and> np_argmin (map (\<lambda>t. \<bar>t - end_time\<bar>) time_frames) = Inr j \<and> i < j
          \<and> cv (roi_columns mel_spec_db i j) = Inl e \<longrightarrow>
        detect_switch_noise cv mel_spec_db time_frames start_time end_time =
          (Some start_time, Some end_time))"
  using detect_exception detect_cv_raises by blast

text \<open>
  The theorem at a spectrogram of 12 frames one second apart, the default window and
  OpenCV steps that raise.
\<close>

theorem detect_switch_noise_catches_exceptions_witness:
  "np_argmin (map (\<lambda>t. \<bar>t - 5\<bar>) (clip_time_frames 12)) = Inr 5
   \<and> np_argmin (map (\<lambda>t. \<bar>t - 7\<bar>) (clip_time_frames 12)) = Inr 7 \<and> (5::nat) < 7
   \<and> cv_raises (roi_columns [replicate 12 0] 5 7) = Inl CvError
   \<and> detect_try cv_raises [replicate 12 0] (clip_time_frames 12) 5 7 = Inl CvError
   \<and> detect_switch_noise cv_raises [replicate 12 0] (clip_time_frames 12) 5 7 = (Some 5, Some 7)"
proof -
  have h: "cv_raises (roi_columns [replicate 12 0] 5 7) = Inl CvError"
    by (simp add: cv_raises_def)
  have d: "detect_try cv_raises [replicate 12 0] (clip_time_frames 12) 5 7 = Inl CvError"
    by (simp add: detect_try_def clip12_argmin h)
  note t = detect_switch_noise_catches_exceptions [of cv_raises "[replicate 12 0]" "clip_time_frames 12" 5 7,
      THEN conjunct2, rule_format, of 5 7 CvError]
  have "detect_switch_noise cv_raises [replicate 12 0] (clip_time_frames 12) 5 7 = (Some 5, Some 7)"
    using t clip12_argmin h by simp
  then show ?thesis using clip12_argmin h d by simp
qed

section \<open>Batch generations\<close>


lemma fold_delete_filter:
  "fold AList.delete ks al = filter (\<lambda>p. fst p \<notin> set ks) al"
proof (induction ks arbitrary: al)
  case Nil
  then show ?case by simp
next
  case (Cons k ks)
  have "AList.delete k al = filter (\<lambda>p. fst p \<noteq> k) al"
    by (induction al) auto
  with Cons show ?case by (auto intro: filter_cong)
qed

lemma remove_listed_empty: "remove_listed folder = []"
  by (simp add: remove_listed_def fold_delete_filter)

lemma cleared_state:
  "(s::'c app_state)\<lparr>batch_data := [], spectrogram_cache := [], upload_folder := [],
      spectrogram_folder := []\<rparr> = empty_state"
  by (cases s) (simp add: empty_state_def)

lemma upload_files_from_empty:
  assumes "files \<noteq> []" and "\<not> list_all (\<lambda>file. up_filename file = []) files"
  shows "upload_files env s (Some files) = upload_files env empty_state (Some files)"
  using assms by (simp add: upload_files_def remove_listed_empty cleared_state)

lemma upload_sequence_snoc:
  "upload_sequence env s (earlier @ [r]) = fst (upload_files env (upload_sequence env s earlier) r)"
  by (induction earlier arbitrary: s) simp_all

lemma upload_one_keys:
  "fst ` set (batch_data (fst (upload_one env file s))) \<subseteq>
     insert (up_now file @ secure_filename env (up_filename file)) (fst ` set (batch_data s))"
  by (auto simp: upload_one_def Let_def dom_update split: option.splits sum.splits prod.splits)

lemma upload_loop_keys:
  "fst ` set (batch_data (fst (upload_loop env files s results intervals))) \<subseteq>
     (\<lambda>file. up_now file @ secure_filename env (up_filename file)) ` set files
       \<union> fst ` set (batch_data s)"
proof (induction files arbitrary: s results intervals)
  case Nil
  then show ?case by simp
next
  case (Cons f fs)
  let ?key = "\<lambda>file. up_now file @ secure_filename env (up_filename file)"
  obtain s' r where one: "upload_one env f s = (s', r)" by (cases "upload_one env f s")
  have k: "fst ` set (batch_data s') \<subseteq> insert (?key f) (fst ` set (batch_data s))"
    using upload_one_keys [of env f s] one by simp
  have step: "fst ` set (batch_data (fst (upload_loop env (f # fs) s results intervals))) \<subseteq>
          ?key ` set fs \<union> fst ` set (batch_data s')"
  proof (cases r)
    case (Inl e)
    with one show ?thesis by simp
  next
    case (Inr v)
    show ?thesis
    proof (cases v)
      case None
      with Inr one Cons.IH [of s' results intervals] show ?thesis by simp
    next
      case (Some ri)
      obtain row i where ri: "ri = (row, i)" by (cases ri)
      with Some Inr one Cons.IH [of s' "results @ [row]" "intervals @ [i]"]
      show ?thesis by simp
    qed
  qed
  have "?key ` set fs \<union> fst ` set (batch_data s') \<subseteq>
          ?key ` set (f # fs) \<union> fst ` set (batch_data s)"
    using k by auto
  with step show ?case by (rule order_trans)
qed

lemma upload_files_keys:
  "fst ` set (batch_data (fst (upload_files env empty_state (Some files)))) \<subseteq>
     (\<lambda>file. up_now file @ secure_filename env (up_filename file)) ` set files"
proof (cases "files = [] \<or> list_all (\<lambda>file. up_filename file = []) files")
  case True
  then show ?thesis by (auto simp: upload_files_def empty_state_def)
next
  case False
  obtain s' r where l: "upload_loop env files empty_state [] [] = (s', r)"
    by (cases "upload_loop env files empty_state [] []")
  have "fst (upload_files env empty_state (Some files)) = s'"
    using False
    by (simp add: upload_files_def remove_listed_empty cleared_state l
        split: sum.splits prod.splits)
  then show ?thesis
    using upload_loop_keys [of env files empty_state "[]" "[]"] l by (simp add: empty_state_def)
qed

section \<open>The upload handler\<close>


lemma allowed_wav: "allowed_file (name @ ''.wav'')"
  by (simp add: allowed_file_def after_last_dot_def ascii_lower_def ALLOWED_EXTENSIONS_def)

lemma clip_names: "allowed_file ''a.wav''" "allowed_file ''b.wav''" "allowed_file ''c.wav''"
  using allowed_wav [of "''a''"] allowed_wav [of "''b''"] allowed_wav [of "''c''"] by simp_all

lemma detect_clip3:
  "detect_switch_noise cv mel_spec_db (clip_time_frames 3) 5 7 = (None, None)"
  by (rule detect_degenerate [OF clip3_argmin]) simp

lemma detect_clip12:
  "detect_switch_noise no_contours mel_spec_db (clip_time_frames 12) 5 7 = (Some 5, Some 7)"
  by (simp add: detect_switch_noise_def detect_try_def clip12_argmin no_contours_def)

lemma clip_env_fields:
  "secure_filename clip_env name = name"
  "generate_mel_spectrogram clip_env n =
     Some \<lparr>sp_mel_spec_db = [replicate n 0], sp_time_frames = clip_time_frames n, sp_sr = 22050\<rparr>"
  "cv_steps_of clip_env = no_contours"
  by (simp_all add: clip_env_def no_contours_def fun_eq_iff)

lemma duration12: "duration_of (clip_time_frames 12) = 12"
  by (simp add: duration_of_def clip_time_frames_def upt_rec)

lemma upload_one_short:
  "upload_one clip_env short_clip empty_state =
    (\<lparr>batch_data = [(''20240103_100000_c.wav'',
         \<lparr>fd_filename = ''c.wav'', fd_unique_filename = ''20240103_100000_c.wav'',
          fd_file_path = ''uploads/20240103_100000_c.wav'',
          fd_spec_image_path = ''temp_spectrograms/20240103_100000_c.wav.png'',
          fd_detected_interval = (None, None),
          fd_duration = duration_of (clip_time_frames 3)\<rparr>)],
      spectrogram_cache = [(''20240103_100000_c.wav'',
          \<lparr>sp_mel_spec_db = [replicate 3 0], sp_time_frames = clip_time_frames 3, sp_sr = 22050\<rparr>)],
      upload_folder = [(''uploads/20240103_100000_c.wav'', 3)],
      spectrogram_folder = [(''temp_spectrograms/20240103_100000_c.wav.png'',
          \<lparr>sp_mel_spec_db = [replicate 3 0], sp_time_frames = clip_time_frames 3, sp_sr = 22050\<rparr>)]\<rparr>,
     Inl TypeError)"
  by (simp add: upload_one_def short_clip_def clip_names clip_env_fields detect_clip3 Let_def
      round2_opt_def path_join_def UPLOAD_FOLDER_def SPECTROGRAM_FOLDER_def empty_state_def)


lemma upload_one_degenerate:
  assumes "up_filename file \<noteq> []" and "allowed_file (up_filename file)"
    and "generate_mel_spectrogram env (up_content file) = Some sp"
    and "detect_switch_noise (cv_steps_of env) (sp_mel_spec_db sp) (sp_time_frames sp) 5 7 = (None, None)"
  shows "map_option fd_detected_interval
           (map_of (batch_data (fst (upload_one env file s)))
              (up_now file @ secure_filename env (up_filename file))) = Some (None, None)"
  using assms by (simp add: upload_one_def Let_def round2_opt_def update_conv')

text \<open>
  Claim C5, as the code has it. When the frame index nearest the start of the coarse
  window is not strictly before the one nearest its end, \<open>detect_switch_noise\<close> returns
  the no-detection result \<open>(None, None)\<close>; and the upload handler, which calls the
  detector with the window (5.0, 7.0), records that result, not the coarse window, as the
  detected interval of the file in \<open>batch_data\<close>.
\<close>

theorem degenerate_window_recorded_as_no_detection:
  "(\<forall>i j. np_argmin (map (\<lambda>t. \<bar>t - start_time\<bar>) time_frames) = Inr i
        \<and> np_argmin (map (\<lambda>t. \<bar>t - end_time\<bar>) time_frames) = Inr j \<and> j \<le> i \<longrightarrow>
      detect_switch_noise cv mel_spec_db time_frames start_time end_time = (None, None))
   \<and> (\<forall>i j. up_filename file \<noteq> [] \<and> allowed_file (up_filename file)
        \<and> generate_mel_spectrogram env (up_content file) = Some sp
        \<and> np_argmin (map (\<lambda>t. \<bar>t - 5\<bar>) (sp_time_frames sp)) = Inr i
        \<and> np_argmin (map (\<lambda>t. \<bar>t - 7\<bar>) (sp_time_frames sp)) = Inr j \<and> j \<le> i \<longrightarrow>
      map_option fd_detected_interval
        (map_of (batch_data (fst (upload_one env file s)))
           (up_now file @ secure_filename env (up_filename file))) = Some (None, None))"
proof -
  have "map_option fd_detected_interval
        (map_of (batch_data (fst (upload_one env file s)))
           (up_now file @ secure_filename env (up_filename file))) = Some (None, None)"
    if "up_filename file \<noteq> []" "allowed_file (up_filename file)"
       "generate_mel_spectrogram env (up_content file) = Some sp"
       "np_argmin (map (\<lambda>t. \<bar>t - 5\<bar>) (sp_time_frames sp)) = Inr i"
       "np_argmin (map (\<lambda>t. \<bar>t - 7\<bar>) (sp_time_frames sp)) = Inr j" "j \<le> i"
    for i j
    using that by (intro upload_one_degenerate detect_degenerate)
  then show ?thesis using detect_degenerate by blast
qed

text \<open>
  The theorem at a clip of three seconds: the frames nearest 5.0 and 7.0 are both the
  last one.
\<close>

theorem degenerate_window_recorded_as_no_detection_witness:
  "up_filename short_clip \<noteq> [] \<and> allowed_file (up_filename short_clip)
   \<and> generate_mel_spectrogram clip_env (up_content short_clip) =
        Some \<lparr>sp_mel_spec_db = [replicate 3 0], sp_time_frames = clip_time_frames 3, sp_sr = 22050\<rparr>
   \<and> np_argmin (map (\<lambda>t. \<bar>t - 5\<bar>) (clip_time_frames 3)) = Inr 2
   \<and> np_argmin (map (\<lambda>t. \<bar>t - 7\<bar>) (clip_time_frames 3)) = Inr 2 \<and> (2::nat) \<le> 2
   \<and> detect_switch_noise no_contours [replicate 3 0] (clip_time_frames 3) 5 7 = (None, None)
   \<and> map_option fd_detected_interval
        (map_of (batch_data (fst (upload_one clip_env short_clip empty_state)))
           ''20240103_100000_c.wav'') = Some (None, None)"
proof -
  let ?sp = "\<lparr>sp_mel_spec_db = [replicate 3 0], sp_time_frames = clip_time_frames 3, sp_sr = 22050\<rparr>"
  have h: "up_filename short_clip \<noteq> []" "allowed_file (up_filename short_clip)"
    "generate_mel_spectrogram clip_env (up_content short_clip) = Some ?sp"
    by (simp_all add: short_clip_def clip_names clip_env_fields)
  note t = degenerate_window_recorded_as_no_detection [of 5 "clip_time_frames 3" 7 no_contours "[replicate 3 0]" short_clip clip_env ?sp
      empty_state]
  have 1: "detect_switch_noise no_contours [replicate 3 0] (clip_time_frames 3) 5 7 = (None, None)"
    using t [THEN conjunct1, rule_format, of 2 2] clip3_argmin by simp
  have 2: "map_option fd_detected_interval
        (map_of (batch_data (fst (upload_one clip_env short_clip empty_state)))
           ''20240103_100000_c.wav'') = Some (None, None)"
    using t [THEN conjunct2, rule_format, of 2 2] h clip3_argmin
    by (simp add: short_clip_def clip_env_fields)
  show ?thesis using h clip3_argmin 1 2 by simp
qed

lemma upload_files_unfold:
  assumes "files \<noteq> []" and "\<not> list_all (\<lambda>file. up_filename file = []) files"
  shows "upload_files env s (Some files) =
    (case upload_loop env files empty_state [] [] of
       (s', Inl e) \<Rightarrow> (s', UploadCrash e)
     | (s', Inr (results, intervals)) \<Rightarrow>
         if results = [] then (s', UploadError ''No valid audio files processed'')
         else (s', UploadSuccess results (calculate_weighted_average_interval env intervals)
                     (length results)))"
  using assms by (simp add: upload_files_def remove_listed_empty cleared_state)

text \<open>
  Claim C5 as stated fails in its second half. For an upload of the three second clip
  the handler does not retain the coarse window (5.0, 7.0): the interval stored for the
  file is \<open>(None, None)\<close>, and the request ends in the TypeError that
  \<open>round(None, 2)\<close> raises.
\<close>

theorem upload_files_keeps_no_fallback_window:
  "snd (upload_files clip_env empty_state (Some [short_clip])) = UploadCrash TypeError
   \<and> map (\<lambda>(k, fd). (k, fd_detected_interval fd))
        (batch_data (fst (upload_files clip_env empty_state (Some [short_clip])))) =
      [(''20240103_100000_c.wav'', (None, None))]"
proof -
  have v: "[short_clip] \<noteq> []" "\<not> list_all (\<lambda>file. up_filename file = []) [short_clip]"
    by (simp_all add: short_clip_def)
  show ?thesis
    by (simp add: upload_files_unfold [OF v] upload_one_short)
qed

text \<open>
  Claim C9. After any sequence of upload requests whose last request passes the two
  checks on its files, the state is the one that request alone produces from the empty
  state, and so is its answer: \<open>batch_data\<close> and \<open>spectrogram_cache\<close> are emptied and
  both folders wiped before the first entry is added. Every key of \<open>batch_data\<close> then
  names a file of that last request, the intervals aggregated are those of its files, and
  a following \<open>process_batch\<close> does what it does on the state of that request alone.
\<close>

theorem upload_replaces_previous_batch:
  assumes "files \<noteq> []" and "\<not> list_all (\<lambda>file. up_filename file = []) files"
  shows "upload_sequence env s (earlier @ [Some files]) =
           fst (upload_files env empty_state (Some files))
     \<and> snd (upload_files env (upload_sequence env s earlier) (Some files)) =
           snd (upload_files env empty_state (Some files))
     \<and> fst ` set (batch_data (upload_sequence env s (earlier @ [Some files]))) \<subseteq>
           (\<lambda>file. up_now file @ secure_filename env (up_filename file)) ` set files
     \<and> process_batch env (upload_sequence env s (earlier @ [Some files])) outs data now =
           process_batch env (fst (upload_files env empty_state (Some files))) outs data now"
proof -
  have 1: "upload_files env (upload_sequence env s earlier) (Some files) =
            upload_files env empty_state (Some files)"
    using assms by (rule upload_files_from_empty)
  have 2: "upload_sequence env s (earlier @ [Some files]) =
           fst (upload_files env empty_state (Some files))"
    by (simp only: upload_sequence_snoc 1)
  show ?thesis
    unfolding 2 1 using upload_files_keys [of env files] by blast
qed


lemma upload_one_first:
  "upload_one clip_env first_clip empty_state =
    (\<lparr>batch_data = [(''20240101_120000_a.wav'',
         \<lparr>fd_filename = ''a.wav'', fd_unique_filename = ''20240101_120000_a.wav'',
          fd_file_path = ''uploads/20240101_120000_a.wav'',
          fd_spec_image_path = ''temp_spectrograms/20240101_120000_a.wav.png'',
          fd_detected_interval = (Some 5, Some 7), fd_duration = 12\<rparr>)],
      spectrogram_cache = [(''20240101_120000_a.wav'',
          \<lparr>sp_mel_spec_db = [replicate 12 0], sp_time_frames = clip_time_frames 12, sp_sr = 22050\<rparr>)],
      upload_folder = [(''uploads/20240101_120000_a.wav'', 12)],
      spectrogram_folder = [(''temp_spectrograms/20240101_120000_a.wav.png'',
          \<lparr>sp_mel_spec_db = [replicate 12 0], sp_time_frames = clip_time_frames 12, sp_sr = 22050\<rparr>)]\<rparr>,
     Inr (Some (\<lparr>row_filename = ''a.wav'', row_unique_filename = ''20240101_120000_a.wav'',
                  row_detected_start = 5, row_detected_end = 7, row_duration = 12\<rparr>,
                (Some 5, Some 7))))"
  by (simp add: upload_one_def first_clip_def clip_names clip_env_fields detect_clip12 Let_def
      round2_opt_def path_join_def UPLOAD_FOLDER_def SPECTROGRAM_FOLDER_def empty_state_def
      duration12 clip_env_arith)

lemma upload_one_second:
  "upload_one clip_env second_clip empty_state =
    (\<lparr>batch_data = [(''20240102_090000_b.wav'',
         \<lparr>fd_filename = ''b.wav'', fd_unique_filename = ''20240102_090000_b.wav'',
          fd_file_path = ''uploads/20240102_090000_b.wav'',
          fd_spec_image_path = ''temp_spectrograms/20240102_090000_b.wav.png'',
          fd_detected_interval = (Some 5, Some 7), fd_duration = 12\<rparr>)],
      spectrogram_cache = [(''20240102_090000_b.wav'',
          \<lparr>sp_mel_spec_db = [replicate 12 0], sp_time_frames = clip_time_frames 12, sp_sr = 22050\<rparr>)],
      upload_folder = [(''uploads/20240102_090000_b.wav'', 12)],
      spectrogram_folder = [(''temp_spectrograms/20240102_090000_b.wav.png'',
          \<lparr>sp_mel_spec_db = [replicate 12 0], sp_time_frames = clip_time_frames 12, sp_sr = 22050\<rparr>)]\<rparr>,
     Inr (Some (\<lparr>row_filename = ''b.wav'', row_unique_filename = ''20240102_090000_b.wav'',
                  row_detected_start = 5, row_detected_end = 7, row_duration = 12\<rparr>,
                (Some 5, Some 7))))"
  by (simp add: upload_one_def second_clip_def clip_names clip_env_fields detect_clip12 Let_def
      round2_opt_def path_join_def UPLOAD_FOLDER_def SPECTROGRAM_FOLDER_def empty_state_def
      duration12 clip_env_arith)

lemma aggregate_5_7: "calculate_weighted_average_interval clip_env [(Some 5, Some 7)] = (5, 7)"
  by (simp add: calculate_weighted_average_interval_def present_def clip_env_arith)

lemma clips_valid:
  "[first_clip] \<noteq> []" "\<not> list_all (\<lambda>file. up_filename file = []) [first_clip]"
  "[second_clip] \<noteq> []" "\<not> list_all (\<lambda>file. up_filename file = []) [second_clip]"
  by (simp_all add: first_clip_def second_clip_def)

lemma first_upload_keys:
  "map fst (batch_data (upload_sequence clip_env empty_state [Some [first_clip]])) =
     [''20240101_120000_a.wav'']"
  by (simp add: upload_files_unfold [OF clips_valid(1,2)] upload_one_first)

text \<open>
  The theorem at two uploads of one clip each: after the second, the only entry is the
  second clip.
\<close>

theorem upload_replaces_previous_batch_witness:
  "[second_clip] \<noteq> [] \<and> \<not> list_all (\<lambda>file. up_filename file = []) [second_clip]
   \<and> map fst (batch_data (upload_sequence clip_env empty_state [Some [first_clip]])) =
        [''20240101_120000_a.wav'']
   \<and> map fst (batch_data (upload_sequence clip_env empty_state
                              [Some [first_clip], Some [second_clip]])) =
        [''20240102_090000_b.wav'']
   \<and> snd (upload_files clip_env (upload_sequence clip_env empty_state [Some [first_clip]])
            (Some [second_clip])) =
        UploadSuccess [\<lparr>row_filename = ''b.wav'', row_unique_filename = ''20240102_090000_b.wav'',
                         row_detected_start = 5, row_detected_end = 7, row_duration = 12\<rparr>]
          (5, 7) 1"
proof -
  note t = upload_replaces_previous_batch [OF clips_valid(3,4), of clip_env empty_state "[Some [first_clip]]"]
  have n: "upload_files clip_env empty_state (Some [second_clip]) =
      (fst (upload_one clip_env second_clip empty_state),
       UploadSuccess [\<lparr>row_filename = ''b.wav'', row_unique_filename = ''20240102_090000_b.wav'',
                         row_detected_start = 5, row_detected_end = 7, row_duration = 12\<rparr>]
          (5, 7) 1)"
    by (simp add: upload_files_unfold [OF clips_valid(3,4)] upload_one_second aggregate_5_7)
  have 1: "map fst (batch_data (upload_sequence clip_env empty_state
                              [Some [first_clip], Some [second_clip]])) =
        [''20240102_090000_b.wav'']"
    using t [THEN conjunct1] by (simp add: n upload_one_second)
  have 2: "snd (upload_files clip_env (upload_sequence clip_env empty_state [Some [first_clip]])
            (Some [second_clip])) =
        UploadSuccess [\<lparr>row_filename = ''b.wav'', row_unique_filename = ''20240102_090000_b.wav'',
                         row_detected_start = 5, row_detected_end = 7, row_duration = 12\<rparr>]
          (5, 7) 1"
    using t [THEN conjunct2, THEN conjunct1] by (simp only: n snd_conv)
  show ?thesis using clips_valid(3,4) first_upload_keys 1 2 by blast
qed

end
